theory Spec2Isabelle
  imports Complex_Main
begin

section \<open>The Largest Contentful Paint audit\<close>

text \<open>
  A shallow embedding of \<^verbatim>\<open>lighthouse-core/audits/metrics/largest-contentful-paint.js\<close>.
  JavaScript numbers are idealised as real numbers, a property that may be absent from an
  object (\<^verbatim>\<open>undefined\<close>) is an \<open>option\<close>, an object indexed by pass name is a map, and a
  rejected promise or a thrown exception is the left injection of a sum.
\<close>

subsection \<open>Data\<close>

text \<open>\<^verbatim>\<open>LH.Artifacts\<close>, restricted to the two artifacts the audit reads.\<close>

record ('t, 'd) artifacts =
  traces :: "string \<rightharpoonup> 't"
  devtoolsLogs :: "string \<rightharpoonup> 'd"

text \<open>\<^verbatim>\<open>LH.Audit.ScoreOptions\<close>: each field may be missing from the object.\<close>

record scoreOptions =
  scorePODR :: "real option"
  scoreMedian :: "real option"

text \<open>\<^verbatim>\<open>LH.Audit.Context\<close>: the settings are opaque to the audit.\<close>

record 's auditContext =
  settings :: 's
  options :: scoreOptions

text \<open>The object literal \<^verbatim>\<open>{trace, devtoolsLog, settings: context.settings}\<close>.\<close>

record ('t, 'd, 's) metricComputationData =
  trace :: "'t option"
  devtoolsLog :: "'d option"
  settings' :: 's

record metricResult =
  timing :: real

text \<open>\<^verbatim>\<open>LH.Audit.Product\<close>, with the three fields the audit returns.\<close>

record ('sc, 'msg) product =
  score :: 'sc
  numericValue :: real
  displayValue :: 'msg

text \<open>
  Modelled from the spec: \<^verbatim>\<open>Audit.SCORING_MODES\<close> of \<^verbatim>\<open>audit.js\<close>, a file outside
  the one verified here. The audit reads its member \<^verbatim>\<open>NUMERIC\<close>, and the
  specification opposes the numeric mode to pass/fail.
\<close>

datatype SCORING_MODES = NUMERIC | BINARY

record 'msg meta =
  id_meta :: string
  title :: 'msg
  description :: 'msg
  scoreDisplayMode :: SCORING_MODES
  requiredArtifacts :: "string list"

text \<open>
  The store of one invocation: the two argument objects, which JavaScript passes by
  reference, and the state of the memoising metric engine.
\<close>

record ('t, 'd, 's, 'm) world =
  artifacts_of :: "('t, 'd) artifacts"
  context_of :: "'s auditContext"
  engine_of :: 'm

subsection \<open>The audit class\<close>

definition UIStrings_description :: string where
  "UIStrings_description =
     ''The paint time of the largest in-viewport contentful element. '' @
     ''[Learn more](https://web.dev/largest-contentful-paint/).''"

text \<open>
  \<^verbatim>\<open>static get meta()\<close>. The message function \<^verbatim>\<open>str_\<close> (here \<open>str\<close>) and the shared string
  \<^verbatim>\<open>i18n.UIStrings.largestContentfulPaintMetric\<close> come from \<^verbatim>\<open>i18n.js\<close> and are
  parameters.
\<close>

definition meta ::
  "(string \<Rightarrow> (string \<times> real) list \<Rightarrow> 'msg) \<Rightarrow> string \<Rightarrow> 'msg meta" where
  "meta str largestContentfulPaintMetric =
     \<lparr>id_meta = ''largest-contentful-paint'',
      title = str largestContentfulPaintMetric [],
      description = str UIStrings_description [],
      scoreDisplayMode = NUMERIC,
      requiredArtifacts = [''traces'', ''devtoolsLogs'']\<rparr>"

text \<open>\<^verbatim>\<open>static get defaultOptions()\<close>.\<close>

definition defaultOptions :: scoreOptions where
  "defaultOptions = \<lparr>scorePODR = Some 2000, scoreMedian = Some 4000\<rparr>"

text \<open>
  \<^verbatim>\<open>static async audit(artifacts, context)\<close>. The collaborators that live in other
  files are parameters: the pass name \<^verbatim>\<open>Audit.DEFAULT_PASS\<close>, the metric engine
  \<^verbatim>\<open>ComputedLCP.request\<close> (it threads its memo state and may reject), the scoring
  function \<^verbatim>\<open>Audit.computeLogNormalScore\<close> (it may throw), the message function
  \<open>str\<close> and the shared string \<^verbatim>\<open>i18n.UIStrings.seconds\<close>. The body assigns to no
  property of its arguments, so the store changes in the engine state only. The
  properties of the object literal are evaluated in order: a throwing score leaves the
  message function uncalled.
\<close>

definition audit ::
  "string \<Rightarrow>
   (('t, 'd, 's) metricComputationData \<Rightarrow> 's auditContext \<Rightarrow> 'm \<Rightarrow> ('e + metricResult) \<times> 'm) \<Rightarrow>
   (real \<Rightarrow> real option \<Rightarrow> real option \<Rightarrow> 'e + 'sc) \<Rightarrow>
   (string \<Rightarrow> (string \<times> real) list \<Rightarrow> 'msg) \<Rightarrow> string \<Rightarrow>
   ('t, 'd, 's, 'm) world \<Rightarrow> ('e + ('sc, 'msg) product) \<times> ('t, 'd, 's, 'm) world" where
  "audit DEFAULT_PASS request computeLogNormalScore str seconds w =
     (let artifacts = artifacts_of w;
          ctx = context_of w;
          trace = traces artifacts DEFAULT_PASS;
          devtoolsLog = devtoolsLogs artifacts DEFAULT_PASS;
          metricComputationData =
            \<lparr>trace = trace, devtoolsLog = devtoolsLog, settings' = settings ctx\<rparr>;
          (awaited, engine) = request metricComputationData ctx (engine_of w);
          w' = w\<lparr>engine_of := engine\<rparr>
      in case awaited of
           Inl e \<Rightarrow> (Inl e, w')
         | Inr metricResult \<Rightarrow>
             (case computeLogNormalScore (timing metricResult)
                     (scorePODR (options ctx)) (scoreMedian (options ctx)) of
                Inl e \<Rightarrow> (Inl e, w')
              | Inr s \<Rightarrow>
                  (Inr \<lparr>score = s,
                        numericValue = timing metricResult,
                        displayValue = str seconds [(''timeInMs'', timing metricResult)]\<rparr>,
                   w')))"

text \<open>The calibration invariant of the specification: both points present and ordered.\<close>

definition calibrationInvariant :: "scoreOptions \<Rightarrow> bool" where
  "calibrationInvariant opts =
     (case (scorePODR opts, scoreMedian opts) of
        (Some podr, Some median) \<Rightarrow> podr < median
      | _ \<Rightarrow> False)"

subsection \<open>The calibration the specification describes\<close>

text \<open>
  The specification's words for step 3 of the runner: use \<^verbatim>\<open>context.options.scorePODR\<close>
  and \<^verbatim>\<open>scoreMedian\<close> if present, else the descriptor's defaults. This definition
  follows the specification, not the source; the theorems compare the audit with it.
\<close>

definition spec_calibration :: "scoreOptions \<Rightarrow> scoreOptions" where
  "spec_calibration opts =
     \<lparr>scorePODR = (case scorePODR opts of Some podr \<Rightarrow> Some podr
                   | None \<Rightarrow> scorePODR defaultOptions),
      scoreMedian = (case scoreMedian opts of Some median \<Rightarrow> Some median
                     | None \<Rightarrow> scoreMedian defaultOptions)\<rparr>"

subsection \<open>Error kinds and observation helpers\<close>

text \<open>
  Modelled from the spec: the error kinds of its section 7. The audit itself is
  polymorphic in the error it propagates; the kinds name the failures of the absent
  metric engine and scoring function.
\<close>

datatype error = MissingArtifact | ComputationError | InvalidInput

text \<open>The metric request the audit issues for a store: the default-pass pair and the settings.\<close>

definition requestData ::
  "string \<Rightarrow> ('t, 'd, 's, 'm) world \<Rightarrow> ('t, 'd, 's) metricComputationData" where
  "requestData DEFAULT_PASS w =
     \<lparr>trace = traces (artifacts_of w) DEFAULT_PASS,
      devtoolsLog = devtoolsLogs (artifacts_of w) DEFAULT_PASS,
      settings' = settings (context_of w)\<rparr>"

text \<open>An artifacts bundle cut down to the entries of one pass.\<close>

definition onlyPass :: "string \<Rightarrow> ('t, 'd) artifacts \<Rightarrow> ('t, 'd) artifacts" where
  "onlyPass DEFAULT_PASS a =
     \<lparr>traces = traces a |` {DEFAULT_PASS}, devtoolsLogs = devtoolsLogs a |` {DEFAULT_PASS}\<rparr>"

text \<open>An engine instrumented with the number of requests it has received.\<close>

definition counted ::
  "('x \<Rightarrow> 'c \<Rightarrow> 'm \<Rightarrow> 'r \<times> 'm) \<Rightarrow> 'x \<Rightarrow> 'c \<Rightarrow> nat \<times> 'm \<Rightarrow> 'r \<times> (nat \<times> 'm)" where
  "counted request x c s =
     (case request x c (snd s) of (r, m) \<Rightarrow> (r, (Suc (fst s), m)))"

subsection \<open>The scoring curve\<close>

text \<open>
  Modelled from the spec: the normal law behind the log-normal curve of the
  specification (the curve's code is in \<^verbatim>\<open>audit.js\<close>, outside the file verified here).
  First the integral of the Gaussian \<open>exp (- t\<^sup>2)\<close> from \<open>0\<close> to \<open>x\<close>, as its power
  series \<open>\<Sum>k. (- 1) ^ k * x ^ (2 * k + 1) / (k! * (2 * k + 1))\<close>, and its total mass on
  the half line (the supremum of the integral).
\<close>

definition gauss_coeff :: "nat \<Rightarrow> real" where
  "gauss_coeff n = (if even n then 0 else (- 1) ^ (n div 2) / (fact (n div 2) * real n))"

definition gauss_integral :: "real \<Rightarrow> real" where
  "gauss_integral x = (\<Sum>n. gauss_coeff n * x ^ n)"

definition gauss_total :: real where
  "gauss_total = (SUP x. gauss_integral x)"

text \<open>
  Modelled from the spec: the survival function of the standard normal distribution,
  which the absent curve composes with the logarithm: the probability that a
  standard normal variable exceeds \<open>z\<close>, that is \<open>(1 - erf (z / sqrt 2)) / 2\<close> with
  \<open>erf y = gauss_integral y / gauss_total\<close>.
\<close>

definition normal_sf :: "real \<Rightarrow> real" where
  "normal_sf z = (1 - gauss_integral (z / sqrt 2) / gauss_total) / 2"

text \<open>
  Modelled from the spec: \<^verbatim>\<open>Audit.computeLogNormalScore\<close> of \<^verbatim>\<open>audit.js\<close>, which the
  audit calls and whose code is outside the file verified here. Section 4.1 of the
  specification describes it as the complementary cumulative distribution of a
  log-normal law over real timings: the logarithm of the timing is normal with mean
  \<open>ln median\<close>, so that the median scores one half; timing \<open>0\<close> scores \<open>1\<close>; a negative
  timing is the error \<open>InvalidInput\<close>. The specification leaves the spread of the law (the
  parameterisation that places the score of \<open>podr\<close> near \<open>0.9\<close>) to an external
  definition: \<open>shape podr median\<close>, the standard deviation of the logarithm, is a
  parameter here.
\<close>

definition ScoringCurve ::
  "(real \<Rightarrow> real \<Rightarrow> real) \<Rightarrow> real \<Rightarrow> real \<Rightarrow> real \<Rightarrow> error + real" where
  "ScoringCurve shape time podr median =
     (if time < 0 then Inl InvalidInput
      else if time = 0 then Inr 1
      else Inr (normal_sf ((ln time - ln median) / shape podr median)))"

text \<open>A spread on which the theorems are exercised: the calibration points one deviation apart.\<close>

definition ratioShape :: "real \<Rightarrow> real \<Rightarrow> real" where
  "ratioShape podr median = ln (median / podr)"

text \<open>Concrete collaborators and stores on which the theorems are exercised.\<close>

definition fixedEngine ::
  "('e + metricResult) \<Rightarrow> ('t, 'd, 's) metricComputationData \<Rightarrow> 's auditContext \<Rightarrow> nat \<Rightarrow>
   ('e + metricResult) \<times> nat" where
  "fixedEngine answer x c n = (answer, Suc n)"

definition recordingScore ::
  "real \<Rightarrow> real option \<Rightarrow> real option \<Rightarrow> error + (real \<times> real option \<times> real option)" where
  "recordingScore t podr median = Inr (t, podr, median)"

definition messageId :: "string \<Rightarrow> (string \<times> real) list \<Rightarrow> string \<times> (string \<times> real) list" where
  "messageId key vals = (key, vals)"

definition exampleWorld :: "scoreOptions \<Rightarrow> (string, string, unit, nat) world" where
  "exampleWorld opts =
     \<lparr>artifacts_of =
        \<lparr>traces = [''defaultPass'' \<mapsto> ''trace''],
         devtoolsLogs = [''defaultPass'' \<mapsto> ''log'']\<rparr>,
      context_of = \<lparr>settings = (), options = opts\<rparr>,
      engine_of = 0\<rparr>"

section \<open>Properties\<close>

text \<open>
  C4. The default calibration options are exactly \<open>scorePODR = 2000\<close> and
  \<open>scoreMedian = 4000\<close> milliseconds, and they satisfy the calibration invariant
  \<open>scorePODR < scoreMedian\<close>.
\<close>

theorem defaultOptions_calibration:
  "scorePODR defaultOptions = Some 2000 \<and> scoreMedian defaultOptions = Some 4000 \<and>
   calibrationInvariant defaultOptions"
  by (simp add: defaultOptions_def calibrationInvariant_def)

text \<open>
  C5. The descriptor declares exactly the two required artifacts \<open>traces\<close> and
  \<open>devtoolsLogs\<close>, the numeric scoring-display mode and a fixed identifier. The
  descriptor is a constant of the message function alone: it takes no artifacts, no
  context, no metric engine and no scoring function, so it is read without running the
  audit.
\<close>

theorem meta_declaration:
  "requiredArtifacts (meta str lcpMetric) = [''traces'', ''devtoolsLogs''] \<and>
   scoreDisplayMode (meta str lcpMetric) = NUMERIC \<and>
   id_meta (meta str lcpMetric) = ''largest-contentful-paint''"
  by (simp add: meta_def)

subsection \<open>The audit operation\<close>

lemma audit_request_Inl:
  "request (requestData P w) (context_of w) (engine_of w) = (Inl e, m) \<Longrightarrow>
   audit P request curve str seconds w = (Inl e, w\<lparr>engine_of := m\<rparr>)"
  by (simp add: audit_def requestData_def Let_def)

lemma audit_request_Inr:
  "request (requestData P w) (context_of w) (engine_of w) = (Inr r, m) \<Longrightarrow>
   audit P request curve str seconds w =
     (case curve (timing r) (scorePODR (options (context_of w)))
             (scoreMedian (options (context_of w))) of
        Inl e \<Rightarrow> (Inl e, w\<lparr>engine_of := m\<rparr>)
      | Inr s \<Rightarrow>
          (Inr \<lparr>score = s, numericValue = timing r,
                displayValue = str seconds [(''timeInMs'', timing r)]\<rparr>,
           w\<lparr>engine_of := m\<rparr>))"
  by (simp add: audit_def requestData_def Let_def)

lemma audit_snd:
  "snd (audit P request curve str seconds w) =
   w\<lparr>engine_of := snd (request (requestData P w) (context_of w) (engine_of w))\<rparr>"
  by (simp add: audit_def requestData_def Let_def split: prod.splits sum.splits)

lemma requestData_onlyPass:
  "requestData P (w\<lparr>artifacts_of := onlyPass P (artifacts_of w)\<rparr>) = requestData P w"
  by (simp add: requestData_def onlyPass_def)

lemma audit_requestData:
  "requestData P w' = requestData P w \<Longrightarrow> context_of w' = context_of w \<Longrightarrow>
   engine_of w' = engine_of w \<Longrightarrow>
   fst (audit P request curve str seconds w') = fst (audit P request curve str seconds w)"
  by (simp add: audit_def requestData_def Let_def split: prod.splits sum.splits)

text \<open>
  C1 (amended). When the metric request succeeds, the score (or the scoring function's
  failure) is what the scoring function returns for the timing and for
  \<^verbatim>\<open>context.options.scorePODR\<close> and \<^verbatim>\<open>context.options.scoreMedian\<close> exactly as the
  context holds them. When both fields are present this is the calibration the
  specification describes; the audit substitutes no default for an omitted field.
\<close>

theorem audit_calibration:
  assumes "request (requestData P w) (context_of w) (engine_of w) = (Inr r, m)"
  shows "map_sum id score (fst (audit P request curve str seconds w)) =
           curve (timing r) (scorePODR (options (context_of w)))
             (scoreMedian (options (context_of w))) \<and>
         (scorePODR (options (context_of w)) \<noteq> None \<and>
          scoreMedian (options (context_of w)) \<noteq> None \<longrightarrow>
          spec_calibration (options (context_of w)) = options (context_of w))"
proof
  show "map_sum id score (fst (audit P request curve str seconds w)) =
          curve (timing r) (scorePODR (options (context_of w)))
            (scoreMedian (options (context_of w)))"
    using assms by (simp add: audit_request_Inr [of request P w r m] split: sum.splits)
next
  show "scorePODR (options (context_of w)) \<noteq> None \<and>
        scoreMedian (options (context_of w)) \<noteq> None \<longrightarrow>
        spec_calibration (options (context_of w)) = options (context_of w)"
    by (auto simp: spec_calibration_def)
qed

theorem audit_calibration_witness:
  "map_sum id score
     (fst (audit ''defaultPass'' (fixedEngine (Inr \<lparr>timing = 3000\<rparr>)) recordingScore messageId
        ''seconds'' (exampleWorld \<lparr>scorePODR = Some 1500, scoreMedian = Some 3500\<rparr>))) =
   Inr (3000, Some 1500, Some 3500) \<and>
   spec_calibration \<lparr>scorePODR = Some 1500, scoreMedian = Some 3500\<rparr> =
     \<lparr>scorePODR = Some 1500, scoreMedian = Some 3500\<rparr>"
  using audit_calibration [of "fixedEngine (Inr \<lparr>timing = 3000\<rparr>)" "''defaultPass''"
      "exampleWorld \<lparr>scorePODR = Some 1500, scoreMedian = Some 3500\<rparr>" "\<lparr>timing = 3000\<rparr>" 1
      recordingScore messageId "''seconds''"]
  by (simp add: fixedEngine_def exampleWorld_def recordingScore_def)

text \<open>
  C1 as stated fails: with both calibration fields omitted from \<^verbatim>\<open>context.options\<close> the
  scoring function receives the two absent values, not the defaults 2000 and 4000 that
  the specification's resolution yields.
\<close>

theorem audit_calibration_counterexample:
  "map_sum id score
     (fst (audit ''defaultPass'' (fixedEngine (Inr \<lparr>timing = 3000\<rparr>)) recordingScore messageId
        ''seconds'' (exampleWorld \<lparr>scorePODR = None, scoreMedian = None\<rparr>))) =
   Inr (3000, None, None) \<and>
   recordingScore 3000
     (scorePODR (spec_calibration \<lparr>scorePODR = None, scoreMedian = None\<rparr>))
     (scoreMedian (spec_calibration \<lparr>scorePODR = None, scoreMedian = None\<rparr>)) =
   Inr (3000, Some 2000, Some 4000)"
  by (simp add: audit_def Let_def fixedEngine_def exampleWorld_def recordingScore_def
      spec_calibration_def defaultOptions_def)

text \<open>
  C2. If the metric request fails with an error, the audit fails with that same error:
  its result is the error and no product. The store afterwards is the one left by that
  single request, so nothing was retried and nothing computed in its place.
\<close>

theorem audit_request_failure:
  assumes "request (requestData P w) (context_of w) (engine_of w) = (Inl e, m)"
  shows "audit P request curve str seconds w = (Inl e, w\<lparr>engine_of := m\<rparr>)"
  using assms by (simp add: audit_request_Inl [of request P w e m])

theorem audit_request_failure_witness:
  "audit ''defaultPass'' (fixedEngine (Inl ComputationError)) recordingScore messageId
     ''seconds'' (exampleWorld defaultOptions) =
   (Inl ComputationError, (exampleWorld defaultOptions)\<lparr>engine_of := 1\<rparr>)"
  using audit_request_failure [of "fixedEngine (Inl ComputationError)" "''defaultPass''"
      "exampleWorld defaultOptions" ComputationError 1 recordingScore messageId "''seconds''"]
  by (simp add: fixedEngine_def exampleWorld_def)

text \<open>
  C3 (amended). If the metric request succeeds with \<open>{timing: t}\<close> and the scoring
  function returns a score for \<open>t\<close> and for \<^verbatim>\<open>context.options.scorePODR\<close> and
  \<^verbatim>\<open>context.options.scoreMedian\<close> exactly as the context holds them, the audit returns
  the product with exactly the three fields \<open>score\<close>, \<open>numericValue\<close> and
  \<open>displayValue\<close>: the score is the scoring function's, \<open>numericValue\<close> is \<open>t\<close>
  unchanged, and \<open>displayValue\<close> is the message function applied to the \<open>seconds\<close>
  string and \<open>{timeInMs: t}\<close>. No default is substituted for an omitted field.
\<close>

theorem audit_product:
  assumes "request (requestData P w) (context_of w) (engine_of w) = (Inr r, m)"
    and "curve (timing r) (scorePODR (options (context_of w)))
           (scoreMedian (options (context_of w))) = Inr s"
  shows "fst (audit P request curve str seconds w) =
           Inr \<lparr>score = s, numericValue = timing r,
                displayValue = str seconds [(''timeInMs'', timing r)]\<rparr>"
  using assms by (simp add: audit_request_Inr [of request P w r m])

theorem audit_product_witness:
  "fst (audit ''defaultPass'' (fixedEngine (Inr \<lparr>timing = 2000\<rparr>)) recordingScore messageId
     ''seconds'' (exampleWorld \<lparr>scorePODR = Some 1500, scoreMedian = None\<rparr>)) =
   Inr \<lparr>score = (2000, Some 1500, None), numericValue = 2000,
        displayValue = (''seconds'', [(''timeInMs'', 2000)])\<rparr>"
  using audit_product [of "fixedEngine (Inr \<lparr>timing = 2000\<rparr>)" "''defaultPass''"
      "exampleWorld \<lparr>scorePODR = Some 1500, scoreMedian = None\<rparr>" "\<lparr>timing = 2000\<rparr>" 1
      recordingScore "(2000, Some 1500, None)" messageId "''seconds''"]
  by (simp add: fixedEngine_def exampleWorld_def recordingScore_def messageId_def)

text \<open>
  C3 as stated fails: with both calibration fields omitted from \<^verbatim>\<open>context.options\<close>
  and the timing 3000, the score the claim describes (the scoring function applied with
  the resolved calibration, here the defaults 2000 and 4000) is not the score of the
  returned product, which is the scoring function applied to the two absent values.
\<close>

theorem audit_product_counterexample:
  "recordingScore 3000
     (scorePODR (spec_calibration \<lparr>scorePODR = None, scoreMedian = None\<rparr>))
     (scoreMedian (spec_calibration \<lparr>scorePODR = None, scoreMedian = None\<rparr>)) =
   Inr (3000, Some 2000, Some 4000) \<and>
   fst (audit ''defaultPass'' (fixedEngine (Inr \<lparr>timing = 3000\<rparr>)) recordingScore messageId
     ''seconds'' (exampleWorld \<lparr>scorePODR = None, scoreMedian = None\<rparr>)) \<noteq>
   Inr \<lparr>score = (3000, Some 2000, Some 4000), numericValue = 3000,
        displayValue = (''seconds'', [(''timeInMs'', 3000)])\<rparr> \<and>
   fst (audit ''defaultPass'' (fixedEngine (Inr \<lparr>timing = 3000\<rparr>)) recordingScore messageId
     ''seconds'' (exampleWorld \<lparr>scorePODR = None, scoreMedian = None\<rparr>)) =
   Inr \<lparr>score = (3000, None, None), numericValue = 3000,
        displayValue = (''seconds'', [(''timeInMs'', 3000)])\<rparr>"
  by (simp add: audit_def Let_def fixedEngine_def exampleWorld_def recordingScore_def
      messageId_def spec_calibration_def defaultOptions_def)

text \<open>
  C10. Whether the audit completes or fails, the artifacts and the context are the same
  afterwards; the store differs from the initial one by the engine state of one request,
  issued for the default-pass trace and devtools log and the context's settings (an
  engine that counts its requests counts one more); and the result is the same when every
  other pass is removed from the artifacts.
\<close>

theorem audit_frame:
  "artifacts_of (snd (audit P request curve str seconds w)) = artifacts_of w \<and>
   context_of (snd (audit P request curve str seconds w)) = context_of w \<and>
   engine_of (snd (audit P request curve str seconds w)) =
     snd (request (requestData P w) (context_of w) (engine_of w)) \<and>
   fst (engine_of (snd (audit P (counted request) curve str seconds v))) =
     Suc (fst (engine_of v)) \<and>
   fst (audit P request curve str seconds (w\<lparr>artifacts_of := onlyPass P (artifacts_of w)\<rparr>)) =
     fst (audit P request curve str seconds w)"
proof -
  have "fst (audit P request curve str seconds (w\<lparr>artifacts_of := onlyPass P (artifacts_of w)\<rparr>)) =
        fst (audit P request curve str seconds w)"
    by (rule audit_requestData) (simp_all add: requestData_onlyPass)
  moreover have "fst (engine_of (snd (audit P (counted request) curve str seconds v))) =
        Suc (fst (engine_of v))"
    by (simp add: audit_snd counted_def split: prod.splits)
  ultimately show ?thesis
    by (simp add: audit_snd)
qed

subsection \<open>The Gaussian integral and the normal survival function\<close>

lemma gauss_odd_terms_summable:
  fixes x :: real
  shows "summable (\<lambda>k. (- 1) ^ k * x ^ (2 * k + 1) / (fact k * real (2 * k + 1)))"
proof (rule summable_comparison_test' [where N = 0])
  show "summable (\<lambda>k. \<bar>x\<bar> * ((x\<^sup>2) ^ k /\<^sub>R fact k))"
    by (intro summable_mult summable_exp_generic)
next
  fix k :: nat
  have "norm ((- 1) ^ k * x ^ (2 * k + 1) / (fact k * real (2 * k + 1)))
        = \<bar>x\<bar> * (x\<^sup>2) ^ k / (fact k * real (2 * k + 1))"
    by (simp add: abs_mult power_abs power_mult [symmetric] power_even_abs)
  also have "\<dots> \<le> \<bar>x\<bar> * (x\<^sup>2) ^ k / fact k"
    by (intro divide_left_mono mult_nonneg_nonneg) (simp_all add: mult_le_cancel_left1)
  also have "\<dots> = \<bar>x\<bar> * ((x\<^sup>2) ^ k /\<^sub>R fact k)"
    by (simp add: divide_inverse mult.commute)
  finally show "norm ((- 1) ^ k * x ^ (2 * k + 1) / (fact k * real (2 * k + 1)))
        \<le> \<bar>x\<bar> * ((x\<^sup>2) ^ k /\<^sub>R fact k)" .
qed

lemma gauss_term_eq:
  "gauss_coeff n * x ^ n =
   (if even n then 0
    else (- 1) ^ ((n - 1) div 2) * x ^ (2 * ((n - 1) div 2) + 1) /
         (fact ((n - 1) div 2) * real (2 * ((n - 1) div 2) + 1)))"
proof (cases "even n")
  case True
  then show ?thesis by (simp add: gauss_coeff_def)
next
  case False
  then obtain k where "n = 2 * k + 1" by (auto elim: oddE)
  then show ?thesis by (simp add: gauss_coeff_def)
qed

lemma gauss_summable: "summable (\<lambda>n. gauss_coeff n * x ^ n)"
proof -
  have "(\<lambda>n. if even n then 0
          else (- 1) ^ ((n - 1) div 2) * x ^ (2 * ((n - 1) div 2) + 1) /
               (fact ((n - 1) div 2) * real (2 * ((n - 1) div 2) + 1)))
        sums (\<Sum>k. (- 1) ^ k * x ^ (2 * k + 1) / (fact k * real (2 * k + 1)))"
    by (rule sums_if' [OF summable_sums [OF gauss_odd_terms_summable]])
  then show ?thesis
    by (simp only: gauss_term_eq [symmetric] sums_iff)
qed

lemma gauss_diffs:
  "diffs gauss_coeff n * x ^ n =
   (if even n then (- (x\<^sup>2)) ^ (n div 2) /\<^sub>R fact (n div 2) else 0)"
proof (cases "even n")
  case True
  then obtain k where n: "n = 2 * k" by (auto elim: evenE)
  have cancel: "a * (b / (c * a)) = b / c" if "a \<noteq> 0" for a b c :: real
    using that by simp
  have "gauss_coeff (Suc (2 * k)) = (- 1) ^ k / (fact k * real (Suc (2 * k)))"
    by (simp add: gauss_coeff_def)
  then have "diffs gauss_coeff (2 * k) = real (Suc (2 * k)) * ((- 1) ^ k / (fact k * real (Suc (2 * k))))"
    by (simp only: diffs_def)
  also have "\<dots> = (- 1) ^ k / fact k"
    by (rule cancel) simp
  finally have "diffs gauss_coeff (2 * k) * x ^ (2 * k) = (- 1) ^ k / fact k * x ^ (2 * k)"
    by simp
  also have "\<dots> = (- (x\<^sup>2)) ^ k /\<^sub>R fact k"
    by (simp add: power_minus [of "x\<^sup>2"] power_mult divide_inverse)
  finally show ?thesis
    using n by simp
next
  case False
  then show ?thesis by (simp add: diffs_def gauss_coeff_def)
qed

lemma gauss_diffs_sums: "(\<lambda>n. diffs gauss_coeff n * x ^ n) sums exp (- (x\<^sup>2))"
proof -
  have "(\<lambda>n. if even n then (- (x\<^sup>2)) ^ (n div 2) /\<^sub>R fact (n div 2)
              else (\<lambda>_. 0) ((n - 1) div 2)) sums (0 + exp (- (x\<^sup>2)))"
    by (rule sums_if [OF sums_zero exp_converges])
  then show ?thesis
    by (simp add: gauss_diffs)
qed

lemma DERIV_gauss_integral: "DERIV gauss_integral x :> exp (- (x\<^sup>2))"
proof -
  have "((\<lambda>x. \<Sum>n. gauss_coeff n * x ^ n) has_field_derivative
         (\<Sum>n. diffs gauss_coeff n * x ^ n)) (at x)"
    by (rule termdiffs_strong_converges_everywhere) (rule gauss_summable)
  moreover have "(\<Sum>n. diffs gauss_coeff n * x ^ n) = exp (- (x\<^sup>2))"
    using gauss_diffs_sums by (rule sums_unique [symmetric])
  moreover have "gauss_integral = (\<lambda>x. \<Sum>n. gauss_coeff n * x ^ n)"
    by (rule ext) (simp add: gauss_integral_def)
  ultimately show ?thesis by simp
qed

lemma gauss_integral_0: "gauss_integral 0 = 0"
  by (simp add: gauss_integral_def gauss_coeff_def)

lemma gauss_integral_strict_mono:
  assumes "x < y"
  shows "gauss_integral x < gauss_integral y"
proof (rule DERIV_pos_imp_increasing [of x y gauss_integral, OF assms])
  fix t :: real
  show "\<exists>d. DERIV gauss_integral t :> d \<and> 0 < d"
    using DERIV_gauss_integral [of t] exp_gt_zero by blast
qed

lemma gauss_integral_mono: "x \<le> y \<Longrightarrow> gauss_integral x \<le> gauss_integral y"
  using gauss_integral_strict_mono [of x y] by (cases "x = y") auto

lemma gauss_integral_minus: "gauss_integral (- x) = - gauss_integral x"
proof -
  have "gauss_coeff n * (- x) ^ n = - (gauss_coeff n * x ^ n)" for n
    by (cases "even n") (simp_all add: gauss_coeff_def)
  then have "gauss_integral (- x) = (\<Sum>n. - (gauss_coeff n * x ^ n))"
    by (simp add: gauss_integral_def)
  also have "\<dots> = - (\<Sum>n. gauss_coeff n * x ^ n)"
    by (rule suminf_minus) (rule gauss_summable)
  finally show ?thesis
    by (simp add: gauss_integral_def)
qed

lemma gauss_integral_upper: "gauss_integral x \<le> gauss_integral 1 + exp (- 1)"
proof (cases "x \<le> 1")
  case True
  then have "gauss_integral x \<le> gauss_integral 1"
    by (rule gauss_integral_mono)
  also have "\<dots> \<le> gauss_integral 1 + exp (- 1)"
    by simp
  finally show ?thesis .
next
  case False
  then have x: "1 \<le> x" by simp
  have "gauss_integral x + exp (- x) \<le> gauss_integral 1 + exp (- 1)"
  proof (rule DERIV_nonpos_imp_nonincreasing [of 1 x "\<lambda>t. gauss_integral t + exp (- t)", OF x])
    fix t :: real
    assume t: "1 \<le> t"
    have "DERIV (\<lambda>t. gauss_integral t + exp (- t)) t :> exp (- (t\<^sup>2)) + - exp (- t)"
      by (auto intro!: derivative_eq_intros DERIV_gauss_integral)
    moreover have "t \<le> t\<^sup>2"
      using t by (simp add: power2_eq_square)
    then have "exp (- (t\<^sup>2)) + - exp (- t) \<le> 0"
      by simp
    ultimately show "\<exists>d. DERIV (\<lambda>t. gauss_integral t + exp (- t)) t :> d \<and> d \<le> 0"
      by blast
  qed
  moreover have "0 \<le> exp (- x)"
    by simp
  ultimately show ?thesis
    by linarith
qed

lemma gauss_integral_le_total: "gauss_integral x \<le> gauss_total"
  unfolding gauss_total_def
proof (rule cSUP_upper)
  show "bdd_above (range gauss_integral)"
    by (rule bdd_aboveI2 [where M = "gauss_integral 1 + exp (- 1)"]) (rule gauss_integral_upper)
qed simp

lemma gauss_total_pos: "0 < gauss_total"
proof -
  have "gauss_integral 0 < gauss_integral 1"
    by (rule gauss_integral_strict_mono) simp
  also have "\<dots> \<le> gauss_total"
    by (rule gauss_integral_le_total)
  finally show ?thesis
    by (simp add: gauss_integral_0)
qed

lemma gauss_integral_ge_total: "- gauss_total \<le> gauss_integral x"
  using gauss_integral_le_total [of "- x"] by (simp add: gauss_integral_minus)

lemma normal_sf_0: "normal_sf 0 = 1 / 2"
  by (simp add: normal_sf_def gauss_integral_0)

lemma normal_sf_range: "0 \<le> normal_sf z \<and> normal_sf z \<le> 1"
proof -
  have "gauss_integral (z / sqrt 2) / gauss_total \<le> 1"
    using gauss_integral_le_total [of "z / sqrt 2"] gauss_total_pos by simp
  moreover have "- 1 \<le> gauss_integral (z / sqrt 2) / gauss_total"
    using gauss_integral_ge_total [of "z / sqrt 2"] gauss_total_pos
    by (simp add: pos_le_divide_eq)
  ultimately show ?thesis
    by (simp add: normal_sf_def)
qed

lemma normal_sf_antimono:
  assumes "y \<le> z"
  shows "normal_sf z \<le> normal_sf y"
proof -
  define a where "a = gauss_integral (y / sqrt 2) / gauss_total"
  define b where "b = gauss_integral (z / sqrt 2) / gauss_total"
  from assms have "y / sqrt 2 \<le> z / sqrt 2"
    by (simp add: divide_right_mono)
  then have "gauss_integral (y / sqrt 2) \<le> gauss_integral (z / sqrt 2)"
    by (rule gauss_integral_mono)
  then have "a \<le> b"
    unfolding a_def b_def using gauss_total_pos by (simp add: divide_right_mono)
  then have "(1 - b) / 2 \<le> (1 - a) / 2"
    by simp
  then show ?thesis
    by (simp only: normal_sf_def a_def b_def)
qed

subsection \<open>The scoring curve\<close>

lemma ScoringCurve_pos:
  "0 < time \<Longrightarrow>
   ScoringCurve shape time podr median =
     Inr (normal_sf ((ln time - ln median) / shape podr median))"
  by (simp add: ScoringCurve_def)

lemma ScoringCurve_range:
  "ScoringCurve shape time podr median = Inr s \<Longrightarrow> 0 \<le> s \<and> s \<le> 1"
  using normal_sf_range [of "(ln time - ln median) / shape podr median"]
  by (auto simp: ScoringCurve_def split: if_splits)

text \<open>
  C6. For a calibration \<open>0 < podr < median\<close> (and a positive spread), the curve is
  non-increasing in the timing: for \<open>0 \<le> timing1 < timing2\<close> both timings have a score,
  the score of \<open>timing2\<close> is at most that of \<open>timing1\<close>, and both lie in \<open>[0, 1]\<close>.
\<close>

theorem ScoringCurve_monotone:
  assumes "0 < podr" and "podr < median" and "0 < shape podr median"
    and "0 \<le> timing1" and "timing1 < timing2"
  shows "\<exists>s1 s2. ScoringCurve shape timing1 podr median = Inr s1 \<and>
           ScoringCurve shape timing2 podr median = Inr s2 \<and>
           s2 \<le> s1 \<and> 0 \<le> s1 \<and> s1 \<le> 1 \<and> 0 \<le> s2 \<and> s2 \<le> 1"
proof -
  let ?z = "\<lambda>t. (ln t - ln median) / shape podr median"
  from assms have t2: "0 < timing2"
    by simp
  have s2: "ScoringCurve shape timing2 podr median = Inr (normal_sf (?z timing2))"
    using t2 by (rule ScoringCurve_pos)
  have r2: "0 \<le> normal_sf (?z timing2) \<and> normal_sf (?z timing2) \<le> 1"
    by (rule normal_sf_range)
  show ?thesis
  proof (cases "timing1 = 0")
    case True
    then have "ScoringCurve shape timing1 podr median = Inr 1"
      by (simp add: ScoringCurve_def)
    with s2 r2 show ?thesis
      by simp
  next
    case False
    with assms have t1: "0 < timing1"
      by simp
    have s1: "ScoringCurve shape timing1 podr median = Inr (normal_sf (?z timing1))"
      using t1 by (rule ScoringCurve_pos)
    have "ln timing1 \<le> ln timing2"
      using t1 assms(5) by simp
    then have "?z timing1 \<le> ?z timing2"
      using assms(3) by (simp add: divide_right_mono)
    then have "normal_sf (?z timing2) \<le> normal_sf (?z timing1)"
      by (rule normal_sf_antimono)
    moreover have "0 \<le> normal_sf (?z timing1) \<and> normal_sf (?z timing1) \<le> 1"
      by (rule normal_sf_range)
    ultimately show ?thesis
      using s1 s2 r2 by simp
  qed
qed

theorem ScoringCurve_monotone_witness:
  "\<exists>s1 s2. ScoringCurve ratioShape 1000 2000 4000 = Inr s1 \<and>
     ScoringCurve ratioShape 3000 2000 4000 = Inr s2 \<and>
     s2 \<le> s1 \<and> 0 \<le> s1 \<and> s1 \<le> 1 \<and> 0 \<le> s2 \<and> s2 \<le> 1"
  using ScoringCurve_monotone [of 2000 4000 ratioShape 1000 3000]
  by (simp add: ratioShape_def)

text \<open>
  C7. For a calibration \<open>0 < podr < median\<close> (and a positive spread), the curve scores
  the median exactly one half and the timing \<open>0\<close> exactly \<open>1\<close>, which no score exceeds.
  Over the reals the equalities are exact; rounding is outside the model.
\<close>

theorem ScoringCurve_median:
  assumes "0 < podr" and "podr < median" and "0 < shape podr median"
  shows "ScoringCurve shape median podr median = Inr (1 / 2) \<and>
         ScoringCurve shape 0 podr median = Inr 1 \<and>
         (\<forall>t s. ScoringCurve shape t podr median = Inr s \<longrightarrow> s \<le> 1)"
proof -
  from assms have "0 < median"
    by simp
  then have "ScoringCurve shape median podr median = Inr (1 / 2)"
    by (simp add: ScoringCurve_pos normal_sf_0)
  moreover have "ScoringCurve shape 0 podr median = Inr 1"
    by (simp add: ScoringCurve_def)
  moreover have "\<forall>t s. ScoringCurve shape t podr median = Inr s \<longrightarrow> s \<le> 1"
    using ScoringCurve_range by blast
  ultimately show ?thesis
    by simp
qed

theorem ScoringCurve_median_witness:
  "ScoringCurve ratioShape 4000 2000 4000 = Inr (1 / 2) \<and>
   ScoringCurve ratioShape 0 2000 4000 = Inr 1"
  using ScoringCurve_median [of 2000 4000 ratioShape]
  by (simp add: ratioShape_def)

text \<open>
  C8. A negative timing has no score: the curve fails with \<open>InvalidInput\<close>, whatever the
  calibration, and returns no value of \<open>[0, 1]\<close> in its place.
\<close>

theorem ScoringCurve_negative:
  assumes "time < 0"
  shows "ScoringCurve shape time podr median = Inl InvalidInput"
  using assms by (simp add: ScoringCurve_def)

theorem ScoringCurve_negative_witness:
  "ScoringCurve ratioShape (- 1) 2000 4000 = Inl InvalidInput"
  using ScoringCurve_negative [of "- 1" ratioShape 2000 4000]
  by simp

end
